theory Spec2Isabelle
  imports Complex_Main
begin

section \<open>Data model of contourGen.py\<close>

text \<open>
  The script reads a LAZ file with laspy and exposes it as \<open>las\<close>, an array of point
  records; \<open>las.x\<close>, \<open>las.y\<close>, \<open>las.z\<close> and \<open>las.classification\<close> are the columns of
  that array, so they have the same length by construction. Coordinates are numpy
  float64 values; they are modelled by \<open>real\<close>, that is, rounding is idealised away.
  Classification codes are the unsigned codes of the LAS format.
\<close>

record las_point =
  pt_x :: real
  pt_y :: real
  pt_z :: real
  pt_class :: nat

type_synonym las_data = "las_point list"

definition las_x :: "las_data \<Rightarrow> real list" where
  "las_x las = map pt_x las"

definition las_y :: "las_data \<Rightarrow> real list" where
  "las_y las = map pt_y las"

definition las_z :: "las_data \<Rightarrow> real list" where
  "las_z las = map pt_z las"

definition las_classification :: "las_data \<Rightarrow> nat list" where
  "las_classification las = map pt_class las"

text \<open>The exceptions that the modelled part of the script can raise.\<close>

datatype error = ValueError | KeyError | ZeroDivisionError | QhullError

subsection \<open>Lines 80 to 83: selecting the points of one class\<close>

text \<open>
  \<open>mask = las.classification == class_code\<close> is the element-wise comparison, and
  \<open>a[mask]\<close> keeps the entries of \<open>a\<close> whose mask entry is true, in order
  (the variable is spelt \<open>msk\<close> below, \<open>mask\<close> being a constant of the library).
\<close>

definition class_mask :: "las_data \<Rightarrow> nat \<Rightarrow> bool list" where
  "class_mask las class_code = map (\<lambda>c. c = class_code) (las_classification las)"

definition bool_index :: "'a list \<Rightarrow> bool list \<Rightarrow> 'a list" where
  "bool_index a msk = map fst (filter snd (zip a msk))"

definition filter_class :: "las_data \<Rightarrow> nat \<Rightarrow> real list \<times> real list \<times> real list" where
  "filter_class las class_code =
     (let msk = class_mask las class_code
      in (bool_index (las_x las) msk, bool_index (las_y las) msk, bool_index (las_z las) msk))"

subsection \<open>numpy reductions and ranges\<close>

text \<open>
  \<open>np.min\<close> and \<open>np.max\<close> raise ValueError on an array of size zero. \<open>np.arange(start,
  stop, step)\<close> computes the length \<open>ceil((stop - start) / step)\<close>, returns the empty
  array when that is not positive, and otherwise the values \<open>start + i * step\<close>. With
  float64 bounds a step of zero makes the quotient infinite or undefined, and numpy
  raises ValueError.
\<close>

fun np_min :: "real list \<Rightarrow> error + real" where
  "np_min [] = Inl ValueError"
| "np_min (v # vs) = Inr (fold min vs v)"

fun np_max :: "real list \<Rightarrow> error + real" where
  "np_max [] = Inl ValueError"
| "np_max (v # vs) = Inr (fold max vs v)"

definition arange :: "real \<Rightarrow> real \<Rightarrow> real \<Rightarrow> error + real list" where
  "arange start stop step =
     (if step = 0 then Inl ValueError
      else Inr (map (\<lambda>i. start + real i * step) [0..<nat \<lceil>(stop - start) / step\<rceil>]))"

definition meshgrid :: "real list \<Rightarrow> real list \<Rightarrow> real list list \<times> real list list" where
  "meshgrid x_range y_range =
     (map (\<lambda>_. x_range) y_range, map (\<lambda>v. map (\<lambda>_. v) x_range) y_range)"

text \<open>The division of line 101: Python raises on a zero divisor, HOL would return 0.\<close>

definition py_div :: "real \<Rightarrow> real \<Rightarrow> error + real" where
  "py_div a b = (if b = 0 then Inl ZeroDivisionError else Inr (a / b))"

subsection \<open>Lines 88 to 90: the grid\<close>

text \<open>
  \<open>axis_range v grid_spacing\<close> is \<open>np.arange(np.min(v), np.max(v), grid_spacing)\<close>, the
  expression of line 88 for \<open>x\<close> and of line 89 for \<open>y\<close>.
\<close>

definition axis_range :: "real list \<Rightarrow> real \<Rightarrow> error + real list" where
  "axis_range v grid_spacing =
     (case np_min v of Inl e \<Rightarrow> Inl e
      | Inr lo \<Rightarrow>
          (case np_max v of Inl e \<Rightarrow> Inl e
           | Inr hi \<Rightarrow> arange lo hi grid_spacing))"

definition build_grid ::
  "real list \<Rightarrow> real list \<Rightarrow> real \<Rightarrow> error + (real list list \<times> real list list)" where
  "build_grid x y grid_spacing =
     (case axis_range x grid_spacing of Inl e \<Rightarrow> Inl e
      | Inr x_range \<Rightarrow>
          (case axis_range y grid_spacing of Inl e \<Rightarrow> Inl e
           | Inr y_range \<Rightarrow> Inr (meshgrid x_range y_range)))"

subsection \<open>Lines 91 to 95: interpolation and masking\<close>

text \<open>
  An interpolated field holds one cell per grid point; \<open>None\<close> is numpy's NaN.
  \<open>np.ma.masked_invalid\<close> pairs the field with the mask of its NaN cells, and
  \<open>grid_z.mask.all()\<close> holds when every cell is masked (also when there is no cell).
\<close>

type_synonym field = "real option list list"

record masked_array =
  ma_data :: field
  ma_mask :: "bool list list"

definition masked_invalid :: "field \<Rightarrow> masked_array" where
  "masked_invalid a = \<lparr>ma_data = a, ma_mask = map (map (\<lambda>c. c = None)) a\<rparr>"

definition mask_all :: "masked_array \<Rightarrow> bool" where
  "mask_all m = list_all (list_all (\<lambda>b. b)) (ma_mask m)"

text \<open>
  scipy's \<open>griddata\<close> with \<open>method='linear'\<close> triangulates the samples with Qhull and
  evaluates the piecewise linear interpolant on the grid. The triangulation and the
  evaluation are scipy's; the script only calls them. They enter the model as a
  parameter \<open>interp\<close> of this type: samples, values and grid to field.
\<close>

type_synonym interpolator =
  "(real \<times> real) list \<Rightarrow> real list \<Rightarrow> real list list \<times> real list list \<Rightarrow> field"

definition collinear3 :: "real \<times> real \<Rightarrow> real \<times> real \<Rightarrow> real \<times> real \<Rightarrow> bool" where
  "collinear3 a b c \<longleftrightarrow>
     (fst b - fst a) * (snd c - snd a) = (snd b - snd a) * (fst c - fst a)"

definition degenerate :: "(real \<times> real) list \<Rightarrow> bool" where
  "degenerate pts \<longleftrightarrow>
     list_all (\<lambda>a. list_all (\<lambda>b. list_all (\<lambda>c. collinear3 a b c) pts) pts) pts"

text \<open>
  Modelled from the spec: \<open>griddata\<close> is scipy's function, not part of the script.
  Section 4.3 of the specification says that interpolation fails when the subset has
  fewer than 3 non-collinear points (a degenerate triangulation); in scipy that
  failure is Qhull's error for a flat initial simplex. On every other input the
  result is what the parameter \<open>interp\<close> computes.
\<close>

definition griddata ::
  "interpolator \<Rightarrow> real list \<times> real list \<Rightarrow> real list
     \<Rightarrow> real list list \<times> real list list \<Rightarrow> error + field" where
  "griddata interp points values xi =
     (if degenerate (zip (fst points) (snd points)) then Inl QhullError
      else Inr (interp (zip (fst points) (snd points)) values xi))"

subsection \<open>Line 97: the contour levels\<close>

definition gen_levels :: "real list \<Rightarrow> error + real list" where
  "gen_levels z =
     (case np_min z of Inl e \<Rightarrow> Inl e
      | Inr lo \<Rightarrow>
          (case np_max z of Inl e \<Rightarrow> Inl e
           | Inr hi \<Rightarrow> arange (of_int \<lfloor>lo\<rfloor>) (of_int \<lceil>hi\<rceil>) 0.2))"

subsection \<open>Lines 72 to 106: the generation request\<close>

text \<open>
  The figure is the list of contour layers drawn on the axes so far, the first drawn
  first; \<open>ax.contour\<close> followed by \<open>ax.clabel\<close> is recorded as the layer with the
  arguments of the call. The progress bar is the list of values it has been given:
  the 0 of \<open>st.progress(0)\<close>, then each argument of \<open>progress_bar.progress\<close>.
\<close>

record layer =
  lay_grid_x :: "real list list"
  lay_grid_y :: "real list list"
  lay_grid_z :: masked_array
  lay_levels :: "real list"
  lay_colors :: string
  lay_linewidths :: real

record plot_state =
  ax :: "layer list"
  progress_bar :: "real list"

definition contour ::
  "plot_state \<Rightarrow> real list list \<times> real list list \<Rightarrow> masked_array \<Rightarrow> real list
     \<Rightarrow> string \<Rightarrow> real \<Rightarrow> plot_state" where
  "contour st grid grid_z levels color line_width =
     st\<lparr>ax := ax st @ [\<lparr>lay_grid_x = fst grid, lay_grid_y = snd grid, lay_grid_z = grid_z,
                         lay_levels = levels, lay_colors = color,
                         lay_linewidths = line_width\<rparr>]\<rparr>"

definition progress :: "plot_state \<Rightarrow> real \<Rightarrow> plot_state" where
  "progress st v = st\<lparr>progress_bar := progress_bar st @ [v]\<rparr>"

text \<open>
  The body of the loop of line 78 for the class at position \<open>i\<close>, with \<open>n\<close> the
  length of \<open>selected_classes\<close>. A \<open>continue\<close> returns the state as it is; an
  exception leaves the loop and the request.
\<close>

definition class_body ::
  "interpolator \<Rightarrow> las_data \<Rightarrow> (nat \<rightharpoonup> string \<times> string) \<Rightarrow> real \<Rightarrow> real \<Rightarrow> nat
     \<Rightarrow> plot_state \<Rightarrow> nat \<times> nat \<Rightarrow> error + plot_state" where
  "class_body interp las custom_colors line_width grid_spacing n st ic =
     (case ic of (i, class_code) \<Rightarrow>
      (case custom_colors class_code of None \<Rightarrow> Inl KeyError
       | Some (classification, color) \<Rightarrow>
          (case filter_class las class_code of (x, y, z) \<Rightarrow>
             if length z < 100 then Inr st
             else
               (case build_grid x y grid_spacing of Inl e \<Rightarrow> Inl e
                | Inr grid \<Rightarrow>
                   (case griddata interp (x, y) z grid of Inl e \<Rightarrow> Inl e
                    | Inr gz \<Rightarrow>
                       (let grid_z = masked_invalid gz in
                        if mask_all grid_z then Inr st
                        else
                          (case gen_levels z of Inl e \<Rightarrow> Inl e
                           | Inr levels \<Rightarrow>
                              (let st1 = contour st grid grid_z levels color line_width in
                               (case py_div (real (i + 1)) (real n) of Inl e \<Rightarrow> Inl e
                                | Inr fraction \<Rightarrow> Inr (progress st1 fraction))))))))))"

fun class_loop ::
  "interpolator \<Rightarrow> las_data \<Rightarrow> (nat \<rightharpoonup> string \<times> string) \<Rightarrow> real \<Rightarrow> real \<Rightarrow> nat
     \<Rightarrow> plot_state \<Rightarrow> (nat \<times> nat) list \<Rightarrow> error + plot_state" where
  "class_loop interp las custom_colors line_width grid_spacing n st [] = Inr st"
| "class_loop interp las custom_colors line_width grid_spacing n st (ic # rest) =
     (case class_body interp las custom_colors line_width grid_spacing n st ic of
        Inl e \<Rightarrow> Inl e
      | Inr st' \<Rightarrow> class_loop interp las custom_colors line_width grid_spacing n st' rest)"

text \<open>
  Lines 73 to 106: a fresh figure and a progress bar at 0, the loop over
  \<open>enumerate(selected_classes)\<close>, and the figure that \<open>savefig\<close> then writes.
\<close>

definition generate ::
  "interpolator \<Rightarrow> las_data \<Rightarrow> nat list \<Rightarrow> (nat \<rightharpoonup> string \<times> string) \<Rightarrow> real \<Rightarrow> real
     \<Rightarrow> error + plot_state" where
  "generate interp las selected_classes custom_colors line_width grid_spacing =
     class_loop interp las custom_colors line_width grid_spacing (length selected_classes)
       \<lparr>ax = [], progress_bar = [0]\<rparr> (enumerate 0 selected_classes)"

subsection \<open>Lines 17 to 37 and 61 to 70: styles and widgets\<close>

definition default_classification_styles :: "(nat \<times> string \<times> string) list" where
  "default_classification_styles =
     [(0, ''Created, never classified'', ''lightgray''),
      (1, ''Unclassified'', ''gray''),
      (2, ''Ground'', ''white''),
      (3, ''Low Vegetation'', ''lightgreen''),
      (4, ''Medium Vegetation'', ''green''),
      (5, ''High Vegetation'', ''darkgreen''),
      (6, ''Building'', ''slategray''),
      (7, ''Low Point (noise)'', ''red''),
      (8, ''Model Key-point (mass point)'', ''orange''),
      (9, ''Water'', ''blue''),
      (10, ''Rail'', ''purple''),
      (11, ''Road Surface'', ''brown''),
      (12, ''Reserved'', ''pink''),
      (13, ''Wire Guard'', ''cyan''),
      (14, ''Wire Conductor'', ''deepskyblue''),
      (15, ''Transmission Tower'', ''gold''),
      (16, ''Wire Structure Connector'', ''coral''),
      (17, ''Bridge Deck'', ''sienna''),
      (18, ''High Noise'', ''crimson'')]"

definition classification_styles_get :: "nat \<Rightarrow> string \<times> string" where
  "classification_styles_get cls =
     (case map_of default_classification_styles cls of
        None \<Rightarrow> (''Unknown'', ''yellow'')
      | Some style \<Rightarrow> style)"

text \<open>
  The loop of lines 63 to 67 fills \<open>custom_colors\<close> for each selected class. The
  colour picker is the user's choice, a parameter: class, label and default colour
  name to the colour chosen (matplotlib's conversion of the name to hex included).
\<close>

definition build_custom_colors ::
  "(nat \<Rightarrow> string \<Rightarrow> string \<Rightarrow> string) \<Rightarrow> nat list \<Rightarrow> (nat \<rightharpoonup> string \<times> string)" where
  "build_custom_colors color_picker selected_classes =
     fold (\<lambda>cls custom_colors.
             (case classification_styles_get cls of (classification, default_color_name) \<Rightarrow>
                custom_colors(cls \<mapsto> (classification,
                                      color_picker cls classification default_color_name))))
          selected_classes Map.empty"



text \<open>
  Lines 61 to 106 together: pressing the button runs the generation with the colours
  picked for the selected classes.
\<close>

definition generate_contour_map ::
  "(nat \<Rightarrow> string \<Rightarrow> string \<Rightarrow> string) \<Rightarrow> interpolator \<Rightarrow> las_data \<Rightarrow> nat list
     \<Rightarrow> real \<Rightarrow> real \<Rightarrow> error + plot_state" where
  "generate_contour_map color_picker interp las selected_classes line_width grid_spacing =
     generate interp las selected_classes
       (build_custom_colors color_picker selected_classes) line_width grid_spacing"

section \<open>Properties\<close>

subsection \<open>Filtering\<close>

lemma bool_index_column:
  "bool_index (map f las) (map (\<lambda>p. pt_class p = code) las)
     = map f (filter (\<lambda>p. pt_class p = code) las)"
  by (induction las) (simp_all add: bool_index_def)

lemma class_mask_points:
  "class_mask las code = map (\<lambda>p. pt_class p = code) las"
  by (simp add: class_mask_def las_classification_def comp_def)

lemma filter_class_eq:
  "filter_class las code =
     (map pt_x (filter (\<lambda>p. pt_class p = code) las),
      map pt_y (filter (\<lambda>p. pt_class p = code) las),
      map pt_z (filter (\<lambda>p. pt_class p = code) las))"
  by (simp add: filter_class_def Let_def class_mask_points las_x_def las_y_def las_z_def
      bool_index_column)

text \<open>
  Claim C9. For every point cloud and every classification code, the three selected
  columns are exactly the coordinates of the points whose classification equals the
  code, in their original order; the length of the subset is the number of matching
  points; and when no point matches the subset is empty. The selection is a total
  function: it has no failing branch.
\<close>

theorem filter_class_selects:
  "filter_class las code =
     (map pt_x (filter (\<lambda>p. pt_class p = code) las),
      map pt_y (filter (\<lambda>p. pt_class p = code) las),
      map pt_z (filter (\<lambda>p. pt_class p = code) las))
   \<and> length (snd (snd (filter_class las code)))
       = length (filter (\<lambda>p. pt_class p = code) las)
   \<and> length (snd (snd (filter_class las code)))
       = count_list (las_classification las) code
   \<and> ((\<forall>p \<in> set las. pt_class p \<noteq> code) \<longrightarrow> filter_class las code = ([], [], []))"
proof -
  let ?sel = "filter (\<lambda>p. pt_class p = code) las"
  have eq: "filter_class las code = (map pt_x ?sel, map pt_y ?sel, map pt_z ?sel)"
    by (rule filter_class_eq)
  have cnt: "count_list (las_classification las) code = length ?sel"
    by (induction las) (simp_all add: las_classification_def)
  have empty: "(\<forall>p \<in> set las. pt_class p \<noteq> code) \<longrightarrow> ?sel = []"
    by (simp add: filter_empty_conv)
  show ?thesis
    using eq cnt empty by simp
qed

theorem filter_class_selects_witness:
  "filter_class [\<lparr>pt_x = 1, pt_y = 2, pt_z = 3, pt_class = 2\<rparr>,
                 \<lparr>pt_x = 4, pt_y = 5, pt_z = 6, pt_class = 5\<rparr>,
                 \<lparr>pt_x = 7, pt_y = 8, pt_z = 9, pt_class = 2\<rparr>] 2 = ([1, 7], [2, 8], [3, 9])
   \<and> pt_class \<lparr>pt_x = 1, pt_y = 2, pt_z = 3, pt_class = 2\<rparr> \<noteq> 9
   \<and> filter_class [\<lparr>pt_x = 1, pt_y = 2, pt_z = 3, pt_class = 2\<rparr>] 9 = ([], [], [])"
  using filter_class_selects [of "[\<lparr>pt_x = 1, pt_y = 2, pt_z = 3, pt_class = 2\<rparr>,
                 \<lparr>pt_x = 4, pt_y = 5, pt_z = 6, pt_class = 5\<rparr>,
                 \<lparr>pt_x = 7, pt_y = 8, pt_z = 9, pt_class = 2\<rparr>]" 2]
    filter_class_selects [of "[\<lparr>pt_x = 1, pt_y = 2, pt_z = 3, pt_class = 2\<rparr>]" 9]
  by simp

subsection \<open>Ranges\<close>

lemma np_min_Min:
  assumes "v \<noteq> []"
  shows "np_min v = Inr (Min (set v))"
proof (cases v)
  case Nil
  with assms show ?thesis by simp
next
  case (Cons a list)
  show ?thesis
    unfolding Cons np_min.simps by (simp only: Min.set_eq_fold)
qed

lemma np_max_Max:
  assumes "v \<noteq> []"
  shows "np_max v = Inr (Max (set v))"
proof (cases v)
  case Nil
  with assms show ?thesis by simp
next
  case (Cons a list)
  show ?thesis
    unfolding Cons np_max.simps by (simp only: Max.set_eq_fold)
qed

lemma arange_step:
  "step \<noteq> 0 \<Longrightarrow>
     arange start stop step
       = Inr (map (\<lambda>i. start + real i * step) [0..<nat \<lceil>(stop - start) / step\<rceil>])"
  by (simp add: arange_def)



lemma axis_range_eq:
  assumes "v \<noteq> []" and "grid_spacing \<noteq> 0"
  shows "axis_range v grid_spacing
     = Inr (map (\<lambda>i. Min (set v) + real i * grid_spacing)
              [0..<nat \<lceil>(Max (set v) - Min (set v)) / grid_spacing\<rceil>])"
  using assms by (simp add: axis_range_def np_min_Min np_max_Max arange_step)






subsection \<open>Contour levels\<close>

lemma levels_count:
  "nat \<lceil>(real_of_int b - real_of_int a) / 0.2\<rceil> = nat (5 * (b - a))"
proof -
  have "(real_of_int b - real_of_int a) / 0.2 = real_of_int (5 * (b - a))"
    by simp
  then show ?thesis
    by (simp only: ceiling_of_int)
qed

lemma gen_levels_eq:
  assumes "z \<noteq> []"
  shows "gen_levels z
     = Inr (map (\<lambda>i. real_of_int \<lfloor>Min (set z)\<rfloor> + real i * 0.2)
              [0..<nat (5 * (\<lceil>Max (set z)\<rceil> - \<lfloor>Min (set z)\<rfloor>))])"
proof -
  have lo: "np_min z = Inr (Min (set z))"
    by (rule np_min_Min [OF assms])
  have hi: "np_max z = Inr (Max (set z))"
    by (rule np_max_Max [OF assms])
  show ?thesis
    unfolding gen_levels_def lo hi sum.case arange_def levels_count by simp
qed




lemma ceiling_minus_floor:
  "\<lceil>c :: real\<rceil> - \<lfloor>c\<rfloor> = (if c \<in> \<int> then 0 else 1)"
  by (auto simp: ceiling_altdef Ints_def)

text \<open>
  Claim C4, as the code has it. The claim says that a subset whose elevations are all
  equal gets a level set of at most one element. The range of line 97 runs from the
  floor to the ceiling of that elevation, so for a subset with \<open>min(z) = max(z)\<close> the
  level set is empty when the elevation is an integer and otherwise has exactly the
  five elements \<open>floor(z) + 0.2 * i\<close> for \<open>i = 0, ..., 4\<close>: at most five elements, not
  at most one.
\<close>

theorem constant_levels:
  assumes "z \<noteq> []" and "Min (set z) = Max (set z)"
  shows "\<exists>levels.
           gen_levels z = Inr levels
         \<and> length levels \<le> 5
         \<and> (Max (set z) \<in> \<int> \<longrightarrow> levels = [])
         \<and> (Max (set z) \<notin> \<int> \<longrightarrow>
              levels = map (\<lambda>i. real_of_int \<lfloor>Max (set z)\<rfloor> + real i * 0.2) [0..<5])"
proof -
  have "nat (5 * (\<lceil>Max (set z)\<rceil> - \<lfloor>Max (set z)\<rfloor>)) = (if Max (set z) \<in> \<int> then 0 else 5)"
    by (simp only: ceiling_minus_floor) simp
  then have "gen_levels z
     = Inr (if Max (set z) \<in> \<int> then []
            else map (\<lambda>i. real_of_int \<lfloor>Max (set z)\<rfloor> + real i * 0.2) [0..<5])"
    using gen_levels_eq [OF assms(1)] assms(2) by simp
  then show ?thesis by simp
qed

theorem constant_levels_witness:
  "[2.5, 2.5 :: real] \<noteq> [] \<and> Min (set [2.5, 2.5 :: real]) = Max (set [2.5, 2.5])
   \<and> gen_levels [2.5, 2.5] = Inr [2, 2.2, 2.4, 2.6, 2.8]
   \<and> [3, 3 :: real] \<noteq> [] \<and> Min (set [3, 3 :: real]) = Max (set [3, 3])
   \<and> gen_levels [3, 3] = Inr []"
  using constant_levels [of "[2.5, 2.5]"] constant_levels [of "[3, 3]"]
  by (simp add: gen_levels_def arange_def upt_rec)

text \<open>
  The claim as stated fails for the two-point subset with both elevations 2.5: its
  level set has five elements.
\<close>

theorem constant_levels_counterexample:
  "Min (set [2.5, 2.5 :: real]) = Max (set [2.5, 2.5])
   \<and> gen_levels [2.5, 2.5] = Inr [2, 2.2, 2.4, 2.6, 2.8]
   \<and> \<not> length [2, 2.2, 2.4, 2.6, 2.8 :: real] \<le> 1"
  by (simp add: gen_levels_def arange_def upt_rec)

subsection \<open>The loop over the selected classes\<close>

lemma fold_custom_colors:
  "fold (\<lambda>cls custom_colors.
             (case classification_styles_get cls of (classification, default_color_name) \<Rightarrow>
                custom_colors(cls \<mapsto> (classification,
                                      color_picker cls classification default_color_name))))
        selected m c
   = (if c \<in> set selected
      then Some (fst (classification_styles_get c),
                 color_picker c (fst (classification_styles_get c))
                   (snd (classification_styles_get c)))
      else m c)"
  by (induction selected arbitrary: m) (auto split: prod.splits)

lemma build_custom_colors_selected:
  "c \<in> set selected \<Longrightarrow>
     build_custom_colors color_picker selected c
       = Some (fst (classification_styles_get c),
               color_picker c (fst (classification_styles_get c))
                 (snd (classification_styles_get c)))"
  by (simp add: build_custom_colors_def fold_custom_colors)

lemma class_body_small:
  assumes "custom_colors c = Some style"
    and "length (filter (\<lambda>p. pt_class p = c) las) < 100"
  shows "class_body interp las custom_colors line_width grid_spacing n st (i, c) = Inr st"
  using assms by (cases style) (simp add: class_body_def filter_class_eq)

lemma class_loop_small:
  assumes "\<forall>c \<in> snd ` set ics. custom_colors c \<noteq> None
             \<and> length (filter (\<lambda>p. pt_class p = c) las) < 100"
  shows "class_loop interp las custom_colors line_width grid_spacing n st ics = Inr st"
  using assms
proof (induction ics)
  case Nil
  then show ?case by simp
next
  case (Cons ic rest)
  obtain i c where ic: "ic = (i, c)" by (cases ic)
  from Cons.prems ic obtain style where "custom_colors c = Some style"
    and "length (filter (\<lambda>p. pt_class p = c) las) < 100"
    by auto
  then have "class_body interp las custom_colors line_width grid_spacing n st ic = Inr st"
    unfolding ic by (rule class_body_small)
  moreover have "class_loop interp las custom_colors line_width grid_spacing n st rest = Inr st"
    using Cons.prems by (intro Cons.IH) simp
  ultimately show ?case by simp
qed

lemma generate_all_small:
  assumes "\<forall>c \<in> set selected. length (filter (\<lambda>p. pt_class p = c) las) < 100"
  shows "generate_contour_map color_picker interp las selected line_width grid_spacing
           = Inr \<lparr>ax = [], progress_bar = [0]\<rparr>"
  unfolding generate_contour_map_def generate_def
proof (rule class_loop_small)
  show "\<forall>c\<in>snd ` set (enumerate 0 selected).
       build_custom_colors color_picker selected c \<noteq> None \<and>
       length (filter (\<lambda>p. pt_class p = c) las) < 100"
    using assms by (auto simp: in_set_enumerate_eq build_custom_colors_selected)
qed



lemma np_min_error: "np_min v = Inl e \<Longrightarrow> e = ValueError"
  by (cases v) simp_all

lemma np_max_error: "np_max v = Inl e \<Longrightarrow> e = ValueError"
  by (cases v) simp_all

lemma arange_error: "arange start stop step = Inl e \<Longrightarrow> e = ValueError"
  by (simp add: arange_def split: if_splits)

lemma axis_range_error: "axis_range v grid_spacing = Inl e \<Longrightarrow> e = ValueError"
  by (auto simp: axis_range_def split: sum.splits dest: np_min_error np_max_error arange_error)

lemma build_grid_error: "build_grid x y grid_spacing = Inl e \<Longrightarrow> e = ValueError"
  by (auto simp: build_grid_def split: sum.splits dest: axis_range_error)

lemma gen_levels_error: "gen_levels z = Inl e \<Longrightarrow> e = ValueError"
  by (auto simp: gen_levels_def split: sum.splits dest: np_min_error np_max_error arange_error)

lemma griddata_error: "griddata interp points values xi = Inl e \<Longrightarrow> e = QhullError"
  by (simp add: griddata_def split: if_splits)

lemma class_body_no_zero_division:
  assumes "0 < n"
  shows "class_body interp las custom_colors line_width grid_spacing n st ic
           \<noteq> Inl ZeroDivisionError"
proof
  assume "class_body interp las custom_colors line_width grid_spacing n st ic
            = Inl ZeroDivisionError"
  then show False
    using assms
    by (auto simp: class_body_def Let_def py_div_def
        split: prod.splits option.splits if_splits sum.splits
        dest: build_grid_error gen_levels_error griddata_error)
qed

lemma class_loop_no_zero_division:
  assumes "ics = [] \<or> 0 < n"
  shows "class_loop interp las custom_colors line_width grid_spacing n st ics
           \<noteq> Inl ZeroDivisionError"
  using assms
proof (induction ics arbitrary: st)
  case Nil
  then show ?case by simp
next
  case (Cons ic rest)
  then have n: "0 < n" by simp
  show ?case
  proof (cases "class_body interp las custom_colors line_width grid_spacing n st ic")
    case (Inl e)
    with class_body_no_zero_division [OF n, of interp las custom_colors line_width grid_spacing st ic]
    show ?thesis by simp
  next
    case (Inr st')
    with Cons.IH [of st'] n show ?thesis by simp
  qed
qed

lemma generate_no_zero_division:
  "generate_contour_map color_picker interp las selected line_width grid_spacing
     \<noteq> Inl ZeroDivisionError"
  unfolding generate_contour_map_def generate_def
  by (rule class_loop_no_zero_division) (cases selected; simp)






lemma class_body_degenerate:
  assumes "custom_colors c = Some style"
    and "100 \<le> length (filter (\<lambda>p. pt_class p = c) las)"
    and "grid_spacing \<noteq> 0"
    and "degenerate (map (\<lambda>p. (pt_x p, pt_y p)) (filter (\<lambda>p. pt_class p = c) las))"
  shows "class_body interp las custom_colors line_width grid_spacing n st (i, c)
           = Inl QhullError"
proof -
  let ?sel = "filter (\<lambda>p. pt_class p = c) las"
  have ne: "map pt_x ?sel \<noteq> []" "map pt_y ?sel \<noteq> []"
    using assms(2) by auto
  have "\<exists>grid. build_grid (map pt_x ?sel) (map pt_y ?sel) grid_spacing = Inr grid"
    by (simp add: build_grid_def axis_range_eq [OF ne(1) assms(3)]
        axis_range_eq [OF ne(2) assms(3)])
  then obtain grid where
    grid: "build_grid (map pt_x ?sel) (map pt_y ?sel) grid_spacing = Inr grid" ..
  have pts: "zip (map pt_x ?sel) (map pt_y ?sel) = map (\<lambda>p. (pt_x p, pt_y p)) ?sel"
    by (simp add: zip_map_map zip_same_conv_map)
  have "griddata interp (map pt_x ?sel, map pt_y ?sel) (map pt_z ?sel) grid = Inl QhullError"
    using assms(4) by (simp add: griddata_def pts)
  then show ?thesis
    using assms(1,2) grid by (cases style) (simp add: class_body_def filter_class_eq)
qed

subsection \<open>An empty selection\<close>

text \<open>
  Claim C10. With an empty list of selected classes the generation completes: the
  result is the figure with no layer (the background alone) and the progress bar
  still at its initial 0; no error is raised. The division of line 101 is never
  evaluated with a zero divisor: no request at all ends in ZeroDivisionError.
\<close>

theorem empty_selection_completes:
  "generate_contour_map color_picker interp las [] line_width grid_spacing
     = Inr \<lparr>ax = [], progress_bar = [0]\<rparr>
   \<and> generate_contour_map color_picker interp las selected_classes line_width grid_spacing
       \<noteq> Inl ZeroDivisionError"
proof
  show "generate_contour_map color_picker interp las [] line_width grid_spacing
     = Inr \<lparr>ax = [], progress_bar = [0]\<rparr>"
    by (simp add: generate_contour_map_def generate_def)
  show "generate_contour_map color_picker interp las selected_classes line_width grid_spacing
       \<noteq> Inl ZeroDivisionError"
    by (rule generate_no_zero_division)
qed


subsection \<open>Progress reports\<close>

text \<open>
  What the progress bar receives on a request that completes: a strictly increasing
  sequence of values between 0 and 1.
\<close>

lemma class_body_progress:
  assumes "class_body interp las custom_colors line_width grid_spacing n st (i, c) = Inr st'"
  shows "progress_bar st' = progress_bar st
       \<or> (n \<noteq> 0 \<and> progress_bar st' = progress_bar st @ [real (i + 1) / real n])"
  using assms
  by (auto simp: class_body_def Let_def py_div_def progress_def contour_def
      split: prod.splits option.splits if_splits sum.splits)

lemma class_loop_progress:
  assumes "class_loop interp las custom_colors line_width grid_spacing n st (enumerate k cs)
             = Inr st'"
    and "k + length cs \<le> n"
    and "sorted_wrt (<) (progress_bar st)"
    and "\<forall>v \<in> set (progress_bar st). 0 \<le> v \<and> v \<le> real k / real n"
  shows "sorted_wrt (<) (progress_bar st') \<and> (\<forall>v \<in> set (progress_bar st'). 0 \<le> v \<and> v \<le> 1)"
  using assms
proof (induction cs arbitrary: k st)
  case Nil
  have "real k / real n \<le> 1"
    using Nil.prems(2) by (cases "n = 0") (simp_all add: divide_le_eq_1)
  with Nil.prems show ?case by fastforce
next
  case (Cons c rest)
  from Cons.prems(2) have n: "0 < n" and k: "Suc k + length rest \<le> n" by simp_all
  from Cons.prems(1) obtain st1 where
    body: "class_body interp las custom_colors line_width grid_spacing n st (k, c) = Inr st1"
    and loop: "class_loop interp las custom_colors line_width grid_spacing n st1
                 (enumerate (Suc k) rest) = Inr st'"
    by (auto simp: enumerate_simps split: sum.splits)
  have step: "real k / real n < real (Suc k) / real n"
    using n by (simp add: divide_strict_right_mono)
  have "sorted_wrt (<) (progress_bar st1)
      \<and> (\<forall>v \<in> set (progress_bar st1). 0 \<le> v \<and> v \<le> real (Suc k) / real n)"
  proof (rule disjE [OF class_body_progress [OF body]])
    assume "progress_bar st1 = progress_bar st"
    with Cons.prems(3,4) step show ?thesis by fastforce
  next
    assume "n \<noteq> 0 \<and> progress_bar st1 = progress_bar st @ [real (k + 1) / real n]"
    then have bar: "progress_bar st1 = progress_bar st @ [real (Suc k) / real n]" by simp
    have "\<forall>v \<in> set (progress_bar st). v < real (Suc k) / real n"
      using Cons.prems(4) step by fastforce
    moreover have "\<forall>v \<in> set (progress_bar st). 0 \<le> v \<and> v \<le> real (Suc k) / real n"
      using Cons.prems(4) step by fastforce
    ultimately show ?thesis
      unfolding bar using Cons.prems(3) by (simp add: sorted_wrt_append)
  qed
  then show ?case
    using Cons.IH [OF loop k] by simp
qed

lemma generate_progress:
  assumes "generate_contour_map color_picker interp las selected_classes line_width grid_spacing
             = Inr st"
  shows "sorted_wrt (<) (progress_bar st) \<and> (\<forall>v \<in> set (progress_bar st). 0 \<le> v \<and> v \<le> 1)"
  using assms unfolding generate_contour_map_def generate_def
  by (rule class_loop_progress) simp_all


text \<open>
  Claim C1, evaluated on the code. The claim says that the progress bar receives a
  fraction after every selected class, skipped classes included, and that the last
  fraction is 1.0. The \<open>continue\<close> of line 86 leaves the loop body before the
  report of line 101: for a cloud of 99 points, all of class 2, and the selection
  \<open>[2]\<close>, the request completes with nothing drawn and the bar has received nothing
  beyond its initial 0.
\<close>

theorem skipped_class_no_progress:
  "generate_contour_map color_picker interp
     (replicate 99 \<lparr>pt_x = 0, pt_y = 0, pt_z = 0, pt_class = 2\<rparr>) [2] line_width grid_spacing
   = Inr \<lparr>ax = [], progress_bar = [0]\<rparr>"
  by (rule generate_all_small) simp


subsection \<open>A class without three non-collinear samples\<close>

lemma degenerate_diagonal:
  assumes "\<forall>p \<in> set pts. snd p = fst p"
  shows "degenerate pts"
  using assms by (auto simp: degenerate_def list_all_iff collinear3_def)


text \<open>
  Claim C3, evaluated on the code. The claim says that a class with at least 100
  points but fewer than 3 non-collinear samples is skipped and the remaining classes
  are processed. The call of line 91 is not guarded: for the 100 points \<open>(k, k)\<close>,
  \<open>k = 0, ..., 99\<close>, all of class 14, the selection \<open>[14]\<close> and spacing 1, the
  error of the triangulation leaves the loop and the request ends with it; no figure
  is produced.
\<close>

theorem collinear_class_aborts:
  "generate_contour_map color_picker interp
     (map (\<lambda>k. \<lparr>pt_x = real k, pt_y = real k, pt_z = 0, pt_class = 14\<rparr>) [0..<100])
     [14] line_width 1
   = Inl QhullError"
proof -
  let ?las = "map (\<lambda>k. \<lparr>pt_x = real k, pt_y = real k, pt_z = 0, pt_class = 14\<rparr>) [0..<100]"
  have sel: "filter (\<lambda>p. pt_class p = 14) ?las = ?las"
    by (simp add: filter_map comp_def)
  have colour: "build_custom_colors color_picker [14] 14
      = Some (fst (classification_styles_get 14),
               color_picker 14 (fst (classification_styles_get 14))
                 (snd (classification_styles_get 14)))"
    by (rule build_custom_colors_selected) simp
  have "class_body interp ?las (build_custom_colors color_picker [14]) line_width 1 (Suc 0)
          \<lparr>ax = [], progress_bar = [0]\<rparr> (0, 14) = Inl QhullError"
  proof (rule class_body_degenerate
      [where custom_colors = "build_custom_colors color_picker [14]" and c = 14])
    show "build_custom_colors color_picker [14] 14
      = Some (fst (classification_styles_get 14),
               color_picker 14 (fst (classification_styles_get 14))
                 (snd (classification_styles_get 14)))"
      by (rule colour)
    show "100 \<le> length (filter (\<lambda>p. pt_class p = 14) ?las)"
      unfolding sel by simp
    show "(1::real) \<noteq> 0" by simp
    show "degenerate (map (\<lambda>p. (pt_x p, pt_y p)) (filter (\<lambda>p. pt_class p = 14) ?las))"
      unfolding sel by (rule degenerate_diagonal) auto
  qed
  then show ?thesis
    by (simp add: generate_contour_map_def generate_def enumerate_simps)
qed



subsection \<open>Spacing that is not positive\<close>












end
